theory Spec2Isabelle
  imports Main "HOL-Library.Word"
begin

section \<open>The Task Scheduler Registry key plugin (task\_scheduler.py)\<close>

text \<open>
  A shallow embedding of \<^verbatim>\<open>plaso/parsers/winreg_plugins/task_scheduler.py\<close>:
  the generator \<^verbatim>\<open>TaskCachePlugin._GetIdValue\<close>, the fixed-size record
  \<^verbatim>\<open>_DYNAMIC_INFO_STRUCT\<close>, the event class \<^verbatim>\<open>TaskCacheEvent\<close> and the method
  \<^verbatim>\<open>TaskCachePlugin.GetEntries\<close>.

  Python 2 byte strings (\<^verbatim>\<open>raw_data\<close>) and text strings (names, paths, \<^verbatim>\<open>data\<close>) are
  both values of type \<open>string\<close>; a character of a byte string is one byte, read as a
  number by \<open>of_char\<close>. The events handed to \<^verbatim>\<open>parser_context.ProduceEvent\<close> and
  the messages handed to \<^verbatim>\<open>logging.warning\<close> are returned as two lists, in the order in
  which the calls are made. An exception that leaves \<^verbatim>\<open>GetEntries\<close> is the value \<open>Inl\<close>
  (what was produced before the exception is not kept).
\<close>

subsection \<open>The Registry store\<close>

text \<open>
  A Registry value has a name, the bytes as stored (\<^verbatim>\<open>raw_data\<close>) and the interpreted
  value (\<^verbatim>\<open>data\<close>; for a string value the decoded text, which is what the \<^verbatim>\<open>Id\<close> value
  of a task is). The plugin reads both attributes, and the store decides how they are
  related.
\<close>

datatype WinRegValue =
  WinRegValue (value_name: string) (raw_data: string) (data: string)

datatype WinRegKey =
  WinRegKey (name: string) (path: string) (offset: int) (last_written_timestamp: int)
    (key_values: "WinRegValue list") (key_subkeys: "WinRegKey list")

text \<open>
  Modelled from the spec: the classes \<^verbatim>\<open>WinRegKey\<close> and \<^verbatim>\<open>WinRegValue\<close> of
  \<^verbatim>\<open>plaso.winreg\<close> are not among the sources. The store supplies
  \<^verbatim>\<open>GetSubkey(name) -> RegistryKey | absent\<close>, \<^verbatim>\<open>GetSubkeys() -> sequence of RegistryKey\<close>
  and \<^verbatim>\<open>GetValue(name) -> RegistryValue | absent\<close>; absent is \<open>None\<close>, which is what the
  plugin's truth tests (\<^verbatim>\<open>if id_value:\<close>, \<^verbatim>\<open>if not tasks_key\<close>) tell apart from a key
  or value object.
\<close>

definition GetSubkeys :: "WinRegKey \<Rightarrow> WinRegKey list" where
  "GetSubkeys key = key_subkeys key"

definition GetSubkey :: "WinRegKey \<Rightarrow> string \<Rightarrow> WinRegKey option" where
  "GetSubkey key n = find (\<lambda>sub_key. name sub_key = n) (key_subkeys key)"

definition GetValue :: "WinRegKey \<Rightarrow> string \<Rightarrow> WinRegValue option" where
  "GetValue key n = find (\<lambda>v. value_name v = n) (key_values key)"

subsection \<open>Event objects\<close>

text \<open>
  Modelled from the spec: the classes of \<^verbatim>\<open>plaso.events\<close> are not among the sources.
  \<^verbatim>\<open>windows_events.WindowsRegistryEvent(timestamp, path, text_dict, offset=, registry_type=)\<close>
  keeps its five arguments. A \<^verbatim>\<open>TaskCacheEvent\<close> keeps the timestamp and its description
  (through \<^verbatim>\<open>FiletimeEvent.__init__\<close>), the task name and the task identifier, and an
  \<^verbatim>\<open>offset\<close> attribute.
\<close>

datatype event_object =
  WindowsRegistryEvent int string "(string \<times> string) list" int "string option"
| TaskCacheEventObject "64 word" string int string string

text \<open>\<^verbatim>\<open>TaskCacheEvent.__init__\<close>: the offset is set to 0, whatever the key.\<close>

definition TaskCacheEvent :: "64 word \<Rightarrow> string \<Rightarrow> string \<Rightarrow> string \<Rightarrow> event_object" where
  "TaskCacheEvent timestamp timestamp_description task_name task_identifier =
     TaskCacheEventObject timestamp timestamp_description 0 task_name task_identifier"

text \<open>The attributes of an event object; \<open>None\<close> where the object has no such attribute.\<close>

fun is_TaskCacheEvent :: "event_object \<Rightarrow> bool" where
  "is_TaskCacheEvent (TaskCacheEventObject t d off n i) = True"
| "is_TaskCacheEvent (WindowsRegistryEvent t p td off rt) = False"

fun event_offset :: "event_object \<Rightarrow> int" where
  "event_offset (TaskCacheEventObject t d off n i) = off"
| "event_offset (WindowsRegistryEvent t p td off rt) = off"

fun event_path :: "event_object \<Rightarrow> string option" where
  "event_path (TaskCacheEventObject t d off n i) = None"
| "event_path (WindowsRegistryEvent t p td off rt) = Some p"

fun event_registry_type :: "event_object \<Rightarrow> string option" where
  "event_registry_type (TaskCacheEventObject t d off n i) = None"
| "event_registry_type (WindowsRegistryEvent t p td off rt) = rt"

fun event_timestamp_desc :: "event_object \<Rightarrow> string option" where
  "event_timestamp_desc (TaskCacheEventObject t d off n i) = Some d"
| "event_timestamp_desc (WindowsRegistryEvent t p td off rt) = None"

subsection \<open>The DynamicInfo record\<close>

datatype error = FieldError

record dynamic_info_record =
  version :: "32 word"
  last_registered_time :: "64 word"
  launch_time :: "64 word"

text \<open>
  Modelled from the spec: the \<^verbatim>\<open>construct\<close> library is not among the sources. The
  layout is little-endian, unsigned, at fixed offsets. The fields of a \<^verbatim>\<open>Struct\<close> read their
  bytes from the front of the input one after the other and raise \<^verbatim>\<open>FieldError\<close> when
  fewer bytes are left than the field needs; \<^verbatim>\<open>ULInt32\<close> and \<^verbatim>\<open>ULInt64\<close> are unsigned
  little-endian integers of 4 and 8 bytes, \<^verbatim>\<open>Padding(8)\<close> reads 8 bytes and drops them.
  Bytes after the last field are not looked at.
\<close>

definition read_bytes :: "nat \<Rightarrow> string \<Rightarrow> error + (string \<times> string)" where
  "read_bytes n s = (if length s < n then Inl FieldError else Inr (take n s, drop n s))"

fun le_uint :: "string \<Rightarrow> nat" where
  "le_uint [] = 0"
| "le_uint (c # cs) = of_char c + 256 * le_uint cs"

definition ULInt32 :: "string \<Rightarrow> error + (32 word \<times> string)" where
  "ULInt32 s = (case read_bytes 4 s of Inl e \<Rightarrow> Inl e
                | Inr (bs, rest) \<Rightarrow> Inr (of_nat (le_uint bs), rest))"

definition ULInt64 :: "string \<Rightarrow> error + (64 word \<times> string)" where
  "ULInt64 s = (case read_bytes 8 s of Inl e \<Rightarrow> Inl e
                | Inr (bs, rest) \<Rightarrow> Inr (of_nat (le_uint bs), rest))"

definition Padding :: "nat \<Rightarrow> string \<Rightarrow> error + (unit \<times> string)" where
  "Padding n s = (case read_bytes n s of Inl e \<Rightarrow> Inl e
                  | Inr (bs, rest) \<Rightarrow> Inr ((), rest))"

definition DYNAMIC_INFO_STRUCT_parse :: "string \<Rightarrow> error + dynamic_info_record" where
  "DYNAMIC_INFO_STRUCT_parse s =
     (case ULInt32 s of Inl e \<Rightarrow> Inl e | Inr (v, s1) \<Rightarrow>
      (case ULInt64 s1 of Inl e \<Rightarrow> Inl e | Inr (lrt, s2) \<Rightarrow>
       (case ULInt64 s2 of Inl e \<Rightarrow> Inl e | Inr (lt, s3) \<Rightarrow>
        (case Padding 8 s3 of Inl e \<Rightarrow> Inl e | Inr (u, s4) \<Rightarrow>
           Inr \<lparr>version = v, last_registered_time = lrt, launch_time = lt\<rparr>))))"

text \<open>\<^verbatim>\<open>_DYNAMIC_INFO_STRUCT.sizeof()\<close>: the sum of the sizes of the four fields.\<close>

definition DYNAMIC_INFO_STRUCT_SIZE :: nat where
  "DYNAMIC_INFO_STRUCT_SIZE = 4 + 8 + 8 + 8"

subsection \<open>The plugin\<close>

definition NAME :: string where
  "NAME = ''winreg_task_cache''"

text \<open>
  \<^verbatim>\<open>_GetIdValue\<close> is a generator; the list is what it yields, in order: the key's own
  \<^verbatim>\<open>Id\<close> value when there is one, then what each sub key yields, sub key after sub key.
\<close>

fun GetIdValue :: "WinRegKey \<Rightarrow> (WinRegKey \<times> WinRegValue) list" where
  "GetIdValue (WinRegKey n p off ts vs ks) =
     (case GetValue (WinRegKey n p off ts vs ks) ''Id'' of
        None \<Rightarrow> []
      | Some id_value \<Rightarrow> [(WinRegKey n p off ts vs ks, id_value)])
     @ concat (map GetIdValue ks)"

text \<open>
  The first loop of \<^verbatim>\<open>GetEntries\<close> (lines 110 to 119). The inner loop runs over the
  pairs one \<^verbatim>\<open>_GetIdValue\<close> call yields, the outer one over the sub keys of \<^verbatim>\<open>Tree\<close>;
  the state is the dictionary \<^verbatim>\<open>task_guids\<close> and the warnings logged so far.
\<close>

definition unsupported_Id :: string where
  "unsupported_Id = ''['' @ NAME @ ''] unsupported Id value data size.''"

fun id_value_loop ::
  "(WinRegKey \<times> WinRegValue) list \<Rightarrow> (string \<rightharpoonup> string) \<times> string list
     \<Rightarrow> (string \<rightharpoonup> string) \<times> string list" where
  "id_value_loop [] st = st"
| "id_value_loop ((value_key, id_value) # rest) (task_guids, logged) =
     (if length (raw_data id_value) \<noteq> 78
      then id_value_loop rest (task_guids, logged @ [unsupported_Id])
      else id_value_loop rest (task_guids(data id_value \<mapsto> name value_key), logged))"

fun tree_loop ::
  "WinRegKey list \<Rightarrow> (string \<rightharpoonup> string) \<times> string list
     \<Rightarrow> (string \<rightharpoonup> string) \<times> string list" where
  "tree_loop [] st = st"
| "tree_loop (sub_key # rest) st = tree_loop rest (id_value_loop (GetIdValue sub_key) st)"

text \<open>
  The body of the second loop (lines 122 to 157) for one sub key of \<^verbatim>\<open>Tasks\<close>: the
  events it produces and the warnings it logs, or the exception it raises. Every event
  is handed to \<^verbatim>\<open>ProduceEvent\<close> with the same \<^verbatim>\<open>plugin_name\<close>, the constant \<open>NAME\<close>. The
  decoder is a parameter of \<open>task_body_with\<close>, so that a property can tell whether the
  body calls it; the plugin's body \<open>task_body\<close> calls \<^verbatim>\<open>_DYNAMIC_INFO_STRUCT.parse\<close>.
\<close>

definition unsupported_DynamicInfo :: string where
  "unsupported_DynamicInfo = ''['' @ NAME @ ''] unsupported DynamicInfo value data size.''"

definition task_guids_get :: "(string \<rightharpoonup> string) \<Rightarrow> string \<Rightarrow> string \<Rightarrow> string" where
  "task_guids_get task_guids k dflt = (case task_guids k of None \<Rightarrow> dflt | Some v \<Rightarrow> v)"

definition task_body_with ::
  "(string \<Rightarrow> error + dynamic_info_record)
     \<Rightarrow> WinRegKey \<Rightarrow> string option \<Rightarrow> (string \<rightharpoonup> string) \<Rightarrow> WinRegKey
     \<Rightarrow> error + (event_object list \<times> string list)" where
  "task_body_with parse key registry_type task_guids sub_key =
     (case GetValue sub_key ''DynamicInfo'' of
        None \<Rightarrow> Inr ([], [])
      | Some dynamic_info_value \<Rightarrow>
          if length (raw_data dynamic_info_value) \<noteq> DYNAMIC_INFO_STRUCT_SIZE
          then Inr ([], [unsupported_DynamicInfo])
          else
            (case parse (raw_data dynamic_info_value) of
               Inl e \<Rightarrow> Inl e
             | Inr dynamic_info \<Rightarrow>
                 let nm = task_guids_get task_guids (name sub_key) (name sub_key);
                     text_dict = [(''Task: '' @ nm, ''[ID: '' @ name sub_key @ '']'')]
                 in Inr
                   ([WindowsRegistryEvent (last_written_timestamp key) (path key) text_dict
                       (offset key) registry_type]
                    @ (if last_registered_time dynamic_info \<noteq> 0
                       then [TaskCacheEvent (last_registered_time dynamic_info)
                               ''Last registered time'' nm (name sub_key)]
                       else [])
                    @ (if launch_time dynamic_info \<noteq> 0
                       then [TaskCacheEvent (launch_time dynamic_info)
                               ''Launch time'' nm (name sub_key)]
                       else []),
                    [])))"

definition task_body ::
  "WinRegKey \<Rightarrow> string option \<Rightarrow> (string \<rightharpoonup> string) \<Rightarrow> WinRegKey
     \<Rightarrow> error + (event_object list \<times> string list)" where
  "task_body = task_body_with DYNAMIC_INFO_STRUCT_parse"

fun tasks_loop ::
  "WinRegKey \<Rightarrow> string option \<Rightarrow> (string \<rightharpoonup> string) \<Rightarrow> WinRegKey list
     \<Rightarrow> error + (event_object list \<times> string list)" where
  "tasks_loop key registry_type task_guids [] = Inr ([], [])"
| "tasks_loop key registry_type task_guids (sub_key # rest) =
     (case task_body key registry_type task_guids sub_key of
        Inl e \<Rightarrow> Inl e
      | Inr (evs, ws) \<Rightarrow>
          (case tasks_loop key registry_type task_guids rest of
             Inl e \<Rightarrow> Inl e
           | Inr (evs', ws') \<Rightarrow> Inr (evs @ evs', ws @ ws')))"

definition missing_sub_key :: string where
  "missing_sub_key = ''Task Cache is missing a Tasks or Tree sub key.''"

definition build_task_guids :: "WinRegKey \<Rightarrow> (string \<rightharpoonup> string) \<times> string list" where
  "build_task_guids tree_key = tree_loop (GetSubkeys tree_key) (Map.empty, [])"

definition GetEntries ::
  "WinRegKey \<Rightarrow> string option \<Rightarrow> error + (event_object list \<times> string list)" where
  "GetEntries key registry_type =
     (case GetSubkey key ''Tasks'' of
        None \<Rightarrow> Inr ([], [missing_sub_key])
      | Some tasks_key \<Rightarrow>
          (case GetSubkey key ''Tree'' of
             None \<Rightarrow> Inr ([], [missing_sub_key])
           | Some tree_key \<Rightarrow>
               (case build_task_guids tree_key of (task_guids, logged) \<Rightarrow>
                 (case tasks_loop key registry_type task_guids (GetSubkeys tasks_key) of
                    Inl e \<Rightarrow> Inl e
                  | Inr (evs, ws) \<Rightarrow> Inr (evs, logged @ ws)))))"

subsection \<open>Notions used to state the properties\<close>

text \<open>An \<^verbatim>\<open>Id\<close> pair passes the size test of line 115 when the value holds 78 bytes.\<close>

definition accepted :: "WinRegKey \<times> WinRegValue \<Rightarrow> bool" where
  "accepted p = (length (raw_data (snd p)) = 78)"

text \<open>The dictionary entry line 119 writes for a pair.\<close>

definition entry_of :: "WinRegKey \<times> WinRegValue \<Rightarrow> string \<times> string" where
  "entry_of p = (data (snd p), name (fst p))"

text \<open>The pairs the first loop runs over, in the order in which it meets them.\<close>

definition id_pairs :: "WinRegKey \<Rightarrow> (WinRegKey \<times> WinRegValue) list" where
  "id_pairs tree_key = concat (map GetIdValue (GetSubkeys tree_key))"

text \<open>A task sub key whose \<^verbatim>\<open>DynamicInfo\<close> value is there and has the size of the record.\<close>

definition has_supported_DynamicInfo :: "WinRegKey \<Rightarrow> bool" where
  "has_supported_DynamicInfo sub_key =
     (case GetValue sub_key ''DynamicInfo'' of
        None \<Rightarrow> False
      | Some v \<Rightarrow> length (raw_data v) = DYNAMIC_INFO_STRUCT_SIZE)"

text \<open>
  The keys of a tree in depth-first order, a key before the keys below it, and the
  relation between a key and its immediate sub keys.
\<close>

fun preorder :: "WinRegKey \<Rightarrow> WinRegKey list" where
  "preorder (WinRegKey n p off ts vs ks) =
     WinRegKey n p off ts vs ks # concat (map preorder ks)"

definition subkey_rel :: "(WinRegKey \<times> WinRegKey) set" where
  "subkey_rel = {(key, sub_key). sub_key \<in> set (GetSubkeys key)}"

definition Id_pair :: "WinRegKey \<Rightarrow> (WinRegKey \<times> WinRegValue) option" where
  "Id_pair key = map_option (Pair key) (GetValue key ''Id'')"

subsection \<open>A Task Cache key\<close>

text \<open>
  A key \<^verbatim>\<open>TaskCache\<close> with one task declared at \<^verbatim>\<open>Tree\Microsoft\MyTask\<close>, whose
  \<^verbatim>\<open>DynamicInfo\<close> record holds version 3, last registered time 100 and launch time 0, a
  tree key with a 4-byte \<^verbatim>\<open>Id\<close> value, a task without \<^verbatim>\<open>DynamicInfo\<close> and a task
  whose \<^verbatim>\<open>DynamicInfo\<close> value holds 30 bytes.
\<close>

definition utf16le :: "string \<Rightarrow> string" where
  "utf16le s = concat (map (\<lambda>c. [c, CHR 0x00]) s)"

definition example_guid :: string where
  "example_guid = ''{01234567-89AB-CDEF-0123-456789ABCDEF}''"

definition example_id_value :: WinRegValue where
  "example_id_value =
     WinRegValue ''Id'' (utf16le example_guid @ [CHR 0x00, CHR 0x00]) example_guid"

definition example_dynamic_info :: string where
  "example_dynamic_info = map char_of
     [3, 0, 0, 0,  100, 0, 0, 0, 0, 0, 0, 0,  0, 0, 0, 0, 0, 0, 0, 0,
      0, 0, 0, 0, 0, 0, 0, 0 :: nat]"

definition example_dynamic_info_value :: WinRegValue where
  "example_dynamic_info_value =
     WinRegValue ''DynamicInfo'' example_dynamic_info example_dynamic_info"

definition task_cache_path :: string where
  "task_cache_path = CHR 0x5C # ''TaskCache''"

definition example_my_task :: WinRegKey where
  "example_my_task = WinRegKey ''MyTask'' [] 768 7 [example_id_value] []"

definition example_short_id_value :: WinRegValue where
  "example_short_id_value = WinRegValue ''Id'' ''{00}'' ''{00}''"

definition example_broken :: WinRegKey where
  "example_broken = WinRegKey ''Broken'' [] 896 7 [example_short_id_value] []"

definition example_tree :: WinRegKey where
  "example_tree =
     WinRegKey ''Tree'' (task_cache_path @ CHR 0x5C # ''Tree'') 512 7 []
       [WinRegKey ''Microsoft'' [] 640 7 [] [example_my_task],
        example_broken]"

definition example_task :: WinRegKey where
  "example_task = WinRegKey example_guid [] 1152 7 [example_dynamic_info_value] []"

definition example_thirty_value :: WinRegValue where
  "example_thirty_value =
     WinRegValue ''DynamicInfo'' (replicate 30 (CHR 0x01)) (replicate 30 (CHR 0x01))"

definition example_task_thirty :: WinRegKey where
  "example_task_thirty = WinRegKey ''{thirty}'' [] 1408 7 [example_thirty_value] []"

definition example_tasks :: WinRegKey where
  "example_tasks =
     WinRegKey ''Tasks'' (task_cache_path @ CHR 0x5C # ''Tasks'') 1024 7 []
       [example_task,
        WinRegKey ''{no-dynamic-info}'' [] 1280 7 [] [],
        example_task_thirty]"

definition example_task_cache :: WinRegKey where
  "example_task_cache =
     WinRegKey ''TaskCache'' task_cache_path 4096 9 [] [example_tasks, example_tree]"

text \<open>The same key without its \<^verbatim>\<open>Tree\<close> sub key.\<close>

definition example_without_tree :: WinRegKey where
  "example_without_tree =
     WinRegKey ''TaskCache'' task_cache_path 4096 9 [] [example_tasks]"

text \<open>A tree in which two keys declare the same identifier.\<close>

definition example_first :: WinRegKey where
  "example_first = WinRegKey ''First'' [] 640 7 [example_id_value] []"

definition example_second :: WinRegKey where
  "example_second = WinRegKey ''Second'' [] 768 7 [example_id_value] []"

definition example_twice :: WinRegKey where
  "example_twice = WinRegKey ''Tree'' [] 512 7 [] [example_first, example_second]"

text \<open>A tree without any \<^verbatim>\<open>Id\<close> value.\<close>

definition example_bare_tree :: WinRegKey where
  "example_bare_tree = WinRegKey ''Tree'' [] 512 7 [] [WinRegKey ''Microsoft'' [] 640 7 [] []]"

text \<open>
  A task whose record holds last registered time 0 and launch time 513 (the bytes 1
  and 2 at the offsets 12 and 13), and which no tree key names.
\<close>

definition example_launched_info :: string where
  "example_launched_info = map char_of
     [3, 0, 0, 0,  0, 0, 0, 0, 0, 0, 0, 0,  1, 2, 0, 0, 0, 0, 0, 0,
      0, 0, 0, 0, 0, 0, 0, 0 :: nat]"

definition example_launched_value :: WinRegValue where
  "example_launched_value =
     WinRegValue ''DynamicInfo'' example_launched_info example_launched_info"

definition example_launched_task :: WinRegKey where
  "example_launched_task = WinRegKey ''{launched}'' [] 1536 7 [example_launched_value] []"

section \<open>Properties\<close>

subsection \<open>The decoder\<close>

lemma le_uint_bound: "le_uint s < 256 ^ length s"
proof (induction s)
  case Nil
  show ?case by simp
next
  case (Cons c cs)
  have "(of_char c :: nat) < 256" by simp
  then have "of_char c + 256 * le_uint cs < 256 + 256 * le_uint cs" by simp
  also have "\<dots> = 256 * Suc (le_uint cs)" by simp
  also have "\<dots> \<le> 256 * 256 ^ length cs"
    using Cons.IH by (simp only: mult_le_mono2 Suc_leI)
  finally show ?case by simp
qed

lemma le_uint_sum: "le_uint s = (\<Sum>i<length s. of_char (s ! i) * 256 ^ i)"
proof (induction s)
  case Nil
  show ?case by simp
next
  case (Cons c cs)
  show ?case
    by (simp add: Cons.IH sum.lessThan_Suc_shift sum_distrib_left mult.assoc
        mult.left_commute del: sum.lessThan_Suc)
qed

lemma le_uint_take_drop:
  assumes "k + n \<le> length s"
  shows "le_uint (take n (drop k s)) = (\<Sum>i<n. of_char (s ! (k + i)) * 256 ^ i)"
proof -
  have len: "length (take n (drop k s)) = n"
    using assms by simp
  have "le_uint (take n (drop k s)) = (\<Sum>i<n. of_char (take n (drop k s) ! i) * 256 ^ i)"
    using le_uint_sum [of "take n (drop k s)"] len by simp
  also have "\<dots> = (\<Sum>i<n. of_char (s ! (k + i)) * 256 ^ i)"
    by (rule sum.cong) (use assms in simp_all)
  finally show ?thesis .
qed

lemma sum_lessThan_4:
  fixes f :: "nat \<Rightarrow> nat"
  shows "(\<Sum>i<4. f i) = f 0 + f 1 + f 2 + f 3"
proof -
  have "{..<4::nat} = {0, 1, 2, 3}" by auto
  then show ?thesis by simp
qed

lemma sum_lessThan_8:
  fixes f :: "nat \<Rightarrow> nat"
  shows "(\<Sum>i<8. f i) = f 0 + f 1 + f 2 + f 3 + f 4 + f 5 + f 6 + f 7"
proof -
  have "{..<8::nat} = {0, 1, 2, 3, 4, 5, 6, 7}" by auto
  then show ?thesis by simp
qed

lemma DYNAMIC_INFO_STRUCT_SIZE_28: "DYNAMIC_INFO_STRUCT_SIZE = 28"
  by (simp add: DYNAMIC_INFO_STRUCT_SIZE_def)

lemma parse_28:
  assumes "length s = 28"
  shows "DYNAMIC_INFO_STRUCT_parse s =
     Inr \<lparr>version = of_nat (le_uint (take 4 s)),
          last_registered_time = of_nat (le_uint (take 8 (drop 4 s))),
          launch_time = of_nat (le_uint (take 8 (drop 12 s)))\<rparr>"
  using assms
  by (simp add: DYNAMIC_INFO_STRUCT_parse_def ULInt32_def ULInt64_def Padding_def
      read_bytes_def)

lemma parse_short:
  assumes "length s < 28"
  shows "DYNAMIC_INFO_STRUCT_parse s = Inl FieldError"
  using assms
  by (simp add: DYNAMIC_INFO_STRUCT_parse_def ULInt32_def ULInt64_def Padding_def
      read_bytes_def)

subsection \<open>The traversal of the tree\<close>

lemma map_filter_append:
  "List.map_filter f (xs @ ys) = List.map_filter f xs @ List.map_filter f ys"
  by (simp add: List.map_filter_def)

lemma map_filter_concat:
  "List.map_filter f (concat xss) = concat (map (List.map_filter f) xss)"
  by (induction xss) (simp_all add: map_filter_append map_filter_simps)

lemma GetIdValue_unfold:
  "GetIdValue key =
     (case GetValue key ''Id'' of None \<Rightarrow> [] | Some id_value \<Rightarrow> [(key, id_value)])
     @ concat (map GetIdValue (GetSubkeys key))"
  by (cases key) (simp add: GetSubkeys_def split: option.splits)

lemma preorder_unfold: "preorder key = key # concat (map preorder (GetSubkeys key))"
  by (cases key) (simp add: GetSubkeys_def)

lemma GetIdValue_preorder: "GetIdValue key = List.map_filter Id_pair (preorder key)"
proof (induction key rule: GetIdValue.induct)
  case (1 n p off ts vs ks)
  have "map GetIdValue ks = map (List.map_filter Id_pair \<circ> preorder) ks"
    using "1.IH" by simp
  then have "concat (map GetIdValue ks) = concat (map (List.map_filter Id_pair \<circ> preorder) ks)"
    by (rule arg_cong)
  also have "\<dots> = List.map_filter Id_pair (concat (map preorder ks))"
    by (simp add: map_filter_concat)
  finally have ks:
    "concat (map GetIdValue ks) = List.map_filter Id_pair (concat (map preorder ks))" .
  show ?case
    by (simp add: ks map_filter_simps) (simp add: Id_pair_def split: option.splits)
qed

lemma preorder_self: "key \<in> set (preorder key)"
  by (cases key) simp

lemma preorder_trans:
  assumes "b \<in> set (preorder a)"
  shows "set (preorder b) \<subseteq> set (preorder a)"
  using assms
proof (induction a rule: preorder.induct)
  case (1 n p off ts vs ks)
  show ?case
  proof (cases "b = WinRegKey n p off ts vs ks")
    case True
    then show ?thesis by simp
  next
    case False
    then obtain k where k: "k \<in> set ks" "b \<in> set (preorder k)"
      using "1.prems" by auto
    then have "set (preorder b) \<subseteq> set (preorder k)"
      using "1.IH" by blast
    then show ?thesis using k(1) by auto
  qed
qed

lemma preorder_reachable:
  assumes "k \<in> set (preorder key)"
  shows "(key, k) \<in> subkey_rel\<^sup>*"
  using assms
proof (induction key rule: preorder.induct)
  case (1 n p off ts vs ks)
  show ?case
  proof (cases "k = WinRegKey n p off ts vs ks")
    case True
    then show ?thesis by simp
  next
    case False
    then obtain s where s: "s \<in> set ks" "k \<in> set (preorder s)"
      using "1.prems" by auto
    have "(WinRegKey n p off ts vs ks, s) \<in> subkey_rel"
      using s(1) by (simp add: subkey_rel_def GetSubkeys_def)
    moreover have "(s, k) \<in> subkey_rel\<^sup>*"
      using "1.IH" s by blast
    ultimately show ?thesis by (rule converse_rtrancl_into_rtrancl)
  qed
qed

lemma reachable_preorder:
  assumes "(key, k) \<in> subkey_rel\<^sup>*"
  shows "k \<in> set (preorder key)"
  using assms
proof (induction rule: rtrancl_induct)
  case base
  show ?case by (rule preorder_self)
next
  case (step a b)
  have "b \<in> set (GetSubkeys a)"
    using step.hyps(2) by (simp add: subkey_rel_def)
  then have "b \<in> set (preorder a)"
    using preorder_self [of b] by (subst preorder_unfold) auto
  then show ?case
    using preorder_trans [OF step.IH] by blast
qed

lemma set_preorder: "set (preorder key) = {k. (key, k) \<in> subkey_rel\<^sup>*}"
  using preorder_reachable reachable_preorder by blast

lemma set_map_filter_Id_pair:
  "set (List.map_filter Id_pair ks) = {(k, v). k \<in> set ks \<and> GetValue k ''Id'' = Some v}"
  by (induction ks) (auto simp: map_filter_simps Id_pair_def split: option.splits)

lemma subkey_trancl:
  "(key, k) \<in> subkey_rel\<^sup>+ \<longleftrightarrow> (\<exists>s\<in>set (GetSubkeys key). (s, k) \<in> subkey_rel\<^sup>*)"
proof
  assume "(key, k) \<in> subkey_rel\<^sup>+"
  then obtain s where "(key, s) \<in> subkey_rel" "(s, k) \<in> subkey_rel\<^sup>*"
    by (blast dest: tranclD)
  then show "\<exists>s\<in>set (GetSubkeys key). (s, k) \<in> subkey_rel\<^sup>*"
    by (auto simp: subkey_rel_def)
next
  assume "\<exists>s\<in>set (GetSubkeys key). (s, k) \<in> subkey_rel\<^sup>*"
  then obtain s where "(key, s) \<in> subkey_rel" "(s, k) \<in> subkey_rel\<^sup>*"
    by (auto simp: subkey_rel_def)
  then show "(key, k) \<in> subkey_rel\<^sup>+"
    by (rule rtrancl_into_trancl2)
qed

subsection \<open>The loop over the Id values\<close>

lemma id_value_loop_append:
  "id_value_loop (ps @ qs) st = id_value_loop qs (id_value_loop ps st)"
  by (induction ps st rule: id_value_loop.induct) simp_all

lemma tree_loop_concat:
  "tree_loop ks st = id_value_loop (concat (map GetIdValue ks)) st"
  by (induction ks arbitrary: st) (simp_all add: id_value_loop_append)

lemma id_value_loop_fst:
  "fst (id_value_loop ps (g, l)) = g ++ map_of (rev (map entry_of (filter accepted ps)))"
  by (induction ps "(g, l)" arbitrary: g l rule: id_value_loop.induct)
     (simp_all add: accepted_def entry_of_def map_add_upd_left)

lemma id_value_loop_snd:
  "snd (id_value_loop ps (g, l)) =
     l @ replicate (length (filter (\<lambda>p. \<not> accepted p) ps)) unsupported_Id"
  by (induction ps "(g, l)" arbitrary: g l rule: id_value_loop.induct)
     (simp_all add: accepted_def replicate_app_Cons_same)

lemma build_task_guids_fst:
  "fst (build_task_guids tree_key) =
     map_of (rev (map entry_of (filter accepted (id_pairs tree_key))))"
  by (simp add: build_task_guids_def tree_loop_concat id_value_loop_fst id_pairs_def)

lemma build_task_guids_snd:
  "snd (build_task_guids tree_key) =
     replicate (length (filter (\<lambda>p. \<not> accepted p) (id_pairs tree_key))) unsupported_Id"
  by (simp add: build_task_guids_def tree_loop_concat id_value_loop_snd id_pairs_def)

lemma map_of_rev_last:
  assumes "\<forall>q\<in>set qs. fst q \<noteq> k"
  shows "map_of (rev (xs @ (k, v) # qs)) k = Some v"
proof -
  have "k \<notin> fst ` set (rev qs)"
    using assms by auto
  then have "map_of (rev qs) k = None"
    by (simp add: map_of_eq_None_iff)
  then show ?thesis
    by (simp add: map_add_def)
qed

lemma build_task_guids_unaffected:
  "fst (build_task_guids tree_key) =
     fst (id_value_loop (filter accepted (id_pairs tree_key)) (Map.empty, []))"
  by (simp add: build_task_guids_fst id_value_loop_fst)

subsection \<open>The loop over the task sub keys\<close>

lemma task_body_absent:
  assumes "GetValue sk ''DynamicInfo'' = None"
  shows "task_body key rt g sk = Inr ([], [])"
  using assms by (simp add: task_body_def task_body_with_def)

lemma task_body_with_unsupported:
  assumes "GetValue sk ''DynamicInfo'' = Some v" and "length (raw_data v) \<noteq> 28"
  shows "task_body_with parse key rt g sk = Inr ([], [unsupported_DynamicInfo])"
  using assms by (simp add: task_body_with_def DYNAMIC_INFO_STRUCT_SIZE_def)

lemma task_body_with_raises:
  assumes "GetValue sk ''DynamicInfo'' = Some v" and "length (raw_data v) = 28"
    and "parse (raw_data v) = Inl e"
  shows "task_body_with parse key rt g sk = Inl e"
  using assms by (simp add: task_body_with_def DYNAMIC_INFO_STRUCT_SIZE_def)

lemma task_body_unsupported:
  assumes "GetValue sk ''DynamicInfo'' = Some v" and "length (raw_data v) \<noteq> 28"
  shows "task_body key rt g sk = Inr ([], [unsupported_DynamicInfo])"
  unfolding task_body_def using assms by (rule task_body_with_unsupported)

lemma task_body_supported:
  assumes "GetValue sk ''DynamicInfo'' = Some v" and "length (raw_data v) = 28"
    and "DYNAMIC_INFO_STRUCT_parse (raw_data v) = Inr di"
  shows "task_body key rt g sk =
     Inr (WindowsRegistryEvent (last_written_timestamp key) (path key)
            [(''Task: '' @ task_guids_get g (name sk) (name sk), ''[ID: '' @ name sk @ '']'')]
            (offset key) rt
          # (if last_registered_time di \<noteq> 0
             then [TaskCacheEvent (last_registered_time di) ''Last registered time''
                     (task_guids_get g (name sk) (name sk)) (name sk)]
             else [])
          @ (if launch_time di \<noteq> 0
             then [TaskCacheEvent (launch_time di) ''Launch time''
                     (task_guids_get g (name sk) (name sk)) (name sk)]
             else []),
          [])"
  using assms
  by (simp add: task_body_def task_body_with_def DYNAMIC_INFO_STRUCT_SIZE_def Let_def)

lemma task_body_cases:
  obtains (absent) "GetValue sk ''DynamicInfo'' = None"
  | (unsupported) v where "GetValue sk ''DynamicInfo'' = Some v" "length (raw_data v) \<noteq> 28"
  | (supported) v di where "GetValue sk ''DynamicInfo'' = Some v" "length (raw_data v) = 28"
      "DYNAMIC_INFO_STRUCT_parse (raw_data v) = Inr di"
proof (cases "GetValue sk ''DynamicInfo''")
  case None
  then show ?thesis by (rule absent)
next
  case (Some v)
  show ?thesis
  proof (cases "length (raw_data v) = 28")
    case True
    then show ?thesis using Some parse_28 [of "raw_data v"] by (blast intro: supported)
  next
    case False
    then show ?thesis using Some by (blast intro: unsupported)
  qed
qed

lemma task_body_total: "\<exists>evs ws. task_body key rt g sk = Inr (evs, ws)"
proof (cases sk rule: task_body_cases)
  case absent
  then show ?thesis by (simp add: task_body_absent)
next
  case (unsupported v)
  then show ?thesis by (simp add: task_body_unsupported)
next
  case (supported v di)
  then show ?thesis by (simp add: task_body_supported)
qed

lemma tasks_loop_total: "\<exists>evs ws. tasks_loop key rt g sks = Inr (evs, ws)"
proof (induction sks)
  case Nil
  show ?case by simp
next
  case (Cons sk sks)
  obtain evs ws where a: "task_body key rt g sk = Inr (evs, ws)"
    using task_body_total by blast
  obtain evs' ws' where b: "tasks_loop key rt g sks = Inr (evs', ws')"
    using Cons.IH by blast
  show ?case by (simp add: a b)
qed

lemma tasks_loop_Cons:
  assumes "task_body key rt g sk = Inr (evs, ws)"
    and "tasks_loop key rt g sks = Inr (evs', ws')"
  shows "tasks_loop key rt g (sk # sks) = Inr (evs @ evs', ws @ ws')"
  using assms by simp

lemma tasks_loop_append:
  assumes "tasks_loop key rt g xs = Inr (evs, ws)"
    and "tasks_loop key rt g ys = Inr (evs', ws')"
  shows "tasks_loop key rt g (xs @ ys) = Inr (evs @ evs', ws @ ws')"
  using assms
proof (induction xs arbitrary: evs ws)
  case Nil
  then show ?case by simp
next
  case (Cons x xs)
  obtain e1 w1 where a: "task_body key rt g x = Inr (e1, w1)"
    using task_body_total by blast
  obtain e2 w2 where b: "tasks_loop key rt g xs = Inr (e2, w2)"
    using tasks_loop_total by blast
  have c: "evs = e1 @ e2" "ws = w1 @ w2"
    using Cons.prems(1) a b by simp_all
  have "tasks_loop key rt g (xs @ ys) = Inr (e2 @ evs', w2 @ ws')"
    using Cons.IH [OF b Cons.prems(2)] .
  then show ?case using a c by simp
qed

lemma tasks_loop_mem:
  assumes "tasks_loop key rt g sks = Inr (evs, ws)" and "e \<in> set evs"
  shows "\<exists>sk\<in>set sks. \<exists>evs' ws'. task_body key rt g sk = Inr (evs', ws') \<and> e \<in> set evs'"
  using assms
proof (induction sks arbitrary: evs ws)
  case Nil
  then show ?case by simp
next
  case (Cons x xs)
  obtain e1 w1 where a: "task_body key rt g x = Inr (e1, w1)"
    using task_body_total by blast
  obtain e2 w2 where b: "tasks_loop key rt g xs = Inr (e2, w2)"
    using tasks_loop_total by blast
  have c: "evs = e1 @ e2"
    using Cons.prems(1) a b by simp
  show ?case
  proof (cases "e \<in> set e1")
    case True
    then show ?thesis using a by auto
  next
    case False
    then have "e \<in> set e2" using Cons.prems(2) c by simp
    from Cons.IH [OF b this] show ?thesis by auto
  qed
qed

lemma task_body_key_visited:
  assumes "task_body key rt g sk = Inr (evs, ws)"
  shows "filter (\<lambda>e. \<not> is_TaskCacheEvent e) evs =
     (if has_supported_DynamicInfo sk
      then [WindowsRegistryEvent (last_written_timestamp key) (path key)
              [(''Task: '' @ task_guids_get g (name sk) (name sk),
                ''[ID: '' @ name sk @ '']'')]
              (offset key) rt]
      else [])"
proof (cases sk rule: task_body_cases)
  case absent
  then show ?thesis
    using assms by (simp add: task_body_absent has_supported_DynamicInfo_def)
next
  case (unsupported v)
  then show ?thesis
    using assms
    by (simp add: task_body_unsupported has_supported_DynamicInfo_def
        DYNAMIC_INFO_STRUCT_SIZE_28)
next
  case (supported v di)
  have "evs = fst (evs, ws)" by simp
  also have "(evs, ws) = projr (task_body key rt g sk)"
    using assms by simp
  finally show ?thesis
    using supported
    by (simp add: task_body_supported [OF supported] has_supported_DynamicInfo_def
        DYNAMIC_INFO_STRUCT_SIZE_28 TaskCacheEvent_def)
qed

lemma task_body_event:
  assumes "task_body key rt g sk = Inr (evs, ws)" and "e \<in> set evs"
  shows "e = WindowsRegistryEvent (last_written_timestamp key) (path key)
              [(''Task: '' @ task_guids_get g (name sk) (name sk),
                ''[ID: '' @ name sk @ '']'')]
              (offset key) rt
       \<or> (\<exists>t d. e = TaskCacheEvent t d (task_guids_get g (name sk) (name sk)) (name sk)
             \<and> t \<noteq> 0 \<and> (d = ''Last registered time'' \<or> d = ''Launch time''))"
proof (cases sk rule: task_body_cases)
  case absent
  then show ?thesis
    using assms by (simp add: task_body_absent)
next
  case (unsupported v)
  then show ?thesis
    using assms by (simp add: task_body_unsupported)
next
  case (supported v di)
  show ?thesis
    using assms unfolding task_body_supported [OF supported]
    by (auto simp: TaskCacheEvent_def split: if_splits)
qed

lemma tasks_loop_key_visited:
  assumes "tasks_loop key rt g sks = Inr (evs, ws)"
  shows "filter (\<lambda>e. \<not> is_TaskCacheEvent e) evs =
     map (\<lambda>sk. WindowsRegistryEvent (last_written_timestamp key) (path key)
                 [(''Task: '' @ task_guids_get g (name sk) (name sk),
                   ''[ID: '' @ name sk @ '']'')]
                 (offset key) rt)
       (filter has_supported_DynamicInfo sks)"
  using assms
proof (induction sks arbitrary: evs ws)
  case Nil
  then show ?case by simp
next
  case (Cons x xs)
  obtain e1 w1 where a: "task_body key rt g x = Inr (e1, w1)"
    using task_body_total by blast
  obtain e2 w2 where b: "tasks_loop key rt g xs = Inr (e2, w2)"
    using tasks_loop_total by blast
  have c: "evs = e1 @ e2"
    using Cons.prems a b by simp
  show ?case
    unfolding c by (simp add: task_body_key_visited [OF a] Cons.IH [OF b])
qed

lemma GetEntries_both:
  assumes "GetSubkey key ''Tasks'' = Some tasks_key"
    and "GetSubkey key ''Tree'' = Some tree_key"
    and "tasks_loop key rt (fst (build_task_guids tree_key)) (GetSubkeys tasks_key)
           = Inr (evs, ws)"
  shows "GetEntries key rt = Inr (evs, snd (build_task_guids tree_key) @ ws)"
proof (cases "build_task_guids tree_key")
  case (Pair g l)
  then show ?thesis using assms by (simp add: GetEntries_def)
qed

lemma GetEntries_total: "\<exists>evs ws. GetEntries key rt = Inr (evs, ws)"
proof (cases "GetSubkey key ''Tasks''")
  case None
  then show ?thesis by (simp add: GetEntries_def)
next
  case tasks: (Some tasks_key)
  show ?thesis
  proof (cases "GetSubkey key ''Tree''")
    case None
    then show ?thesis using tasks by (simp add: GetEntries_def)
  next
    case (Some tree_key)
    obtain evs ws where
      "tasks_loop key rt (fst (build_task_guids tree_key)) (GetSubkeys tasks_key)
         = Inr (evs, ws)"
      using tasks_loop_total by blast
    from GetEntries_both [OF tasks Some this] show ?thesis by blast
  qed
qed

subsection \<open>Missing containers\<close>

text \<open>
  Claim C4. If the key handed to \<^verbatim>\<open>GetEntries\<close> has no sub key \<^verbatim>\<open>Tasks\<close> or no sub key
  \<^verbatim>\<open>Tree\<close> (or neither), then no event is produced, exactly one warning is logged, with the
  text "Task Cache is missing a Tasks or Tree sub key.", and the method returns without
  raising.
\<close>

theorem C4_missing_containers:
  assumes "GetSubkey key ''Tasks'' = None \<or> GetSubkey key ''Tree'' = None"
  shows "GetEntries key registry_type =
           Inr ([], [''Task Cache is missing a Tasks or Tree sub key.''])"
  using assms
  by (auto simp: GetEntries_def missing_sub_key_def split: option.splits)

text \<open>The example key without \<^verbatim>\<open>Tree\<close>: the hypothesis holds, and so does the conclusion.\<close>

theorem C4_missing_containers_witness:
  "(GetSubkey example_without_tree ''Tasks'' = None
      \<or> GetSubkey example_without_tree ''Tree'' = None)
   \<and> GetEntries example_without_tree (Some ''SOFTWARE'') =
       Inr ([], [''Task Cache is missing a Tasks or Tree sub key.''])"
proof -
  have h: "GetSubkey example_without_tree ''Tasks'' = None
      \<or> GetSubkey example_without_tree ''Tree'' = None"
    by code_simp
  from C4_missing_containers [OF h, of "Some ''SOFTWARE''"] h show ?thesis
    by simp
qed

subsection \<open>The generic observation\<close>

text \<open>
  Claim C1, as the code has it. The event of lines 140 to 143 is produced after the two
  \<^verbatim>\<open>continue\<close> statements of lines 124 and 130. So, when the key has both a \<^verbatim>\<open>Tasks\<close> and a
  \<^verbatim>\<open>Tree\<close> sub key, the generic observations among the produced events are exactly these:
  one for every immediate sub key of \<^verbatim>\<open>Tasks\<close> that has a \<^verbatim>\<open>DynamicInfo\<close> value of 28
  bytes, in the order of the sub keys, each carrying the last written timestamp, the path
  and the offset of the key handed to \<^verbatim>\<open>GetEntries\<close>, the Registry type, and the pair of
  the resolved task name and the bracketed identifier. A sub key without \<^verbatim>\<open>DynamicInfo\<close>
  value, or with one of another size, contributes no generic observation.
\<close>

theorem C1_key_visited:
  assumes "GetSubkey key ''Tasks'' = Some tasks_key"
    and "GetSubkey key ''Tree'' = Some tree_key"
  shows "\<exists>evs ws. GetEntries key registry_type = Inr (evs, ws)
     \<and> filter (\<lambda>e. \<not> is_TaskCacheEvent e) evs =
         map (\<lambda>sub_key.
                WindowsRegistryEvent (last_written_timestamp key) (path key)
                  [(''Task: '' @ task_guids_get (fst (build_task_guids tree_key))
                                  (name sub_key) (name sub_key),
                    ''[ID: '' @ name sub_key @ '']'')]
                  (offset key) registry_type)
           (filter has_supported_DynamicInfo (GetSubkeys tasks_key))"
proof -
  obtain evs ws where
    loop: "tasks_loop key registry_type (fst (build_task_guids tree_key))
             (GetSubkeys tasks_key) = Inr (evs, ws)"
    using tasks_loop_total by blast
  have "GetEntries key registry_type = Inr (evs, snd (build_task_guids tree_key) @ ws)"
    using GetEntries_both [OF assms loop] .
  then show ?thesis
    using tasks_loop_key_visited [OF loop] by blast
qed

text \<open>
  On the example key, of the three sub keys of \<^verbatim>\<open>Tasks\<close> only the first has a
  \<^verbatim>\<open>DynamicInfo\<close> value of 28 bytes.
\<close>

theorem C1_key_visited_witness:
  "GetSubkey example_task_cache ''Tasks'' = Some example_tasks
   \<and> GetSubkey example_task_cache ''Tree'' = Some example_tree
   \<and> filter has_supported_DynamicInfo (GetSubkeys example_tasks) = [example_task]
   \<and> (\<exists>evs ws. GetEntries example_task_cache (Some ''SOFTWARE'') = Inr (evs, ws)
        \<and> filter (\<lambda>e. \<not> is_TaskCacheEvent e) evs =
            [WindowsRegistryEvent 9 task_cache_path
               [(''Task: MyTask'', ''[ID: {01234567-89AB-CDEF-0123-456789ABCDEF}]'')]
               4096 (Some ''SOFTWARE'')])"
proof -
  have h1: "GetSubkey example_task_cache ''Tasks'' = Some example_tasks"
    by code_simp
  have h2: "GetSubkey example_task_cache ''Tree'' = Some example_tree"
    by code_simp
  have h3: "filter has_supported_DynamicInfo (GetSubkeys example_tasks) = [example_task]"
    by code_simp
  have h4: "WindowsRegistryEvent (last_written_timestamp example_task_cache)
        (path example_task_cache)
        [(''Task: '' @ task_guids_get (fst (build_task_guids example_tree))
                        (name example_task) (name example_task),
          ''[ID: '' @ name example_task @ '']'')]
        (offset example_task_cache) (Some ''SOFTWARE'')
      = WindowsRegistryEvent 9 task_cache_path
          [(''Task: MyTask'', ''[ID: {01234567-89AB-CDEF-0123-456789ABCDEF}]'')]
          4096 (Some ''SOFTWARE'')"
    by code_simp
  have "\<exists>evs ws. GetEntries example_task_cache (Some ''SOFTWARE'') = Inr (evs, ws)
        \<and> filter (\<lambda>e. \<not> is_TaskCacheEvent e) evs =
            [WindowsRegistryEvent 9 task_cache_path
               [(''Task: MyTask'', ''[ID: {01234567-89AB-CDEF-0123-456789ABCDEF}]'')]
               4096 (Some ''SOFTWARE'')]"
    using C1_key_visited [OF h1 h2, of "Some ''SOFTWARE''"]
    unfolding h3 list.map h4 .
  with h1 h2 h3 show ?thesis by blast
qed

text \<open>
  The sentence of C1 as it is written fails on the example key: \<^verbatim>\<open>Tasks\<close> has three
  immediate sub keys, the second without \<^verbatim>\<open>DynamicInfo\<close> value and the third with one of
  30 bytes, and \<^verbatim>\<open>GetEntries\<close> produces one generic observation, for the first sub key.
\<close>

theorem C1_key_visited_counterexample:
  "GetSubkey example_task_cache ''Tasks'' = Some example_tasks
   \<and> map name (GetSubkeys example_tasks)
       = [example_guid, ''{no-dynamic-info}'', ''{thirty}'']
   \<and> GetEntries example_task_cache (Some ''SOFTWARE'') =
       Inr ([WindowsRegistryEvent 9 task_cache_path
               [(''Task: MyTask'', ''[ID: {01234567-89AB-CDEF-0123-456789ABCDEF}]'')]
               4096 (Some ''SOFTWARE''),
             TaskCacheEvent 100 ''Last registered time'' ''MyTask'' example_guid],
            [unsupported_Id, unsupported_DynamicInfo])"
  by code_simp

subsection \<open>The size of the DynamicInfo value\<close>

text \<open>
  Claim C2. For a task sub key with a \<^verbatim>\<open>DynamicInfo\<close> value: when the value holds exactly
  28 bytes, the decoder is called (an error of whatever decoder the body is given would
  leave the body), the decoding succeeds and no warning is logged; when it holds any
  other number of bytes, no decoder is called (the body gives the same result with every
  decoder), the sub key produces no event at all (so no timestamped observation),
  exactly one warning "unsupported DynamicInfo value data size" is logged, and the loop
  goes on: the sub keys before and after it contribute what they contribute without it.
\<close>

theorem C2_dynamic_info_size:
  assumes "GetValue sub_key ''DynamicInfo'' = Some v"
  shows "(length (raw_data v) = 28 \<longrightarrow>
            (\<exists>di evs. DYNAMIC_INFO_STRUCT_parse (raw_data v) = Inr di
               \<and> task_body key registry_type task_guids sub_key = Inr (evs, []))
            \<and> (\<forall>decoder e. decoder (raw_data v) = Inl e \<longrightarrow>
                 task_body_with decoder key registry_type task_guids sub_key = Inl e))
       \<and> (length (raw_data v) \<noteq> 28 \<longrightarrow>
            task_body key registry_type task_guids sub_key =
              Inr ([], [''[winreg_task_cache] unsupported DynamicInfo value data size.''])
            \<and> (\<forall>decoder.
                 task_body_with decoder key registry_type task_guids sub_key =
                   Inr ([], [''[winreg_task_cache] unsupported DynamicInfo value data size.'']))
            \<and> (\<forall>before after evs1 ws1 evs2 ws2.
                 tasks_loop key registry_type task_guids before = Inr (evs1, ws1) \<longrightarrow>
                 tasks_loop key registry_type task_guids after = Inr (evs2, ws2) \<longrightarrow>
                 tasks_loop key registry_type task_guids (before @ sub_key # after) =
                   Inr (evs1 @ evs2,
                        ws1 @ ''[winreg_task_cache] unsupported DynamicInfo value data size.''
                          # ws2)))"
proof (intro conjI impI allI)
  assume len: "length (raw_data v) = 28"
  obtain di where di: "DYNAMIC_INFO_STRUCT_parse (raw_data v) = Inr di"
    using parse_28 [OF len] by blast
  show "\<exists>di evs. DYNAMIC_INFO_STRUCT_parse (raw_data v) = Inr di
          \<and> task_body key registry_type task_guids sub_key = Inr (evs, [])"
    using di task_body_supported [OF assms len di] by blast
next
  fix decoder :: "string \<Rightarrow> error + dynamic_info_record" and e
  assume "length (raw_data v) = 28" and "decoder (raw_data v) = Inl e"
  with assms show "task_body_with decoder key registry_type task_guids sub_key = Inl e"
    by (rule task_body_with_raises)
next
  assume len: "length (raw_data v) \<noteq> 28"
  show "task_body key registry_type task_guids sub_key =
          Inr ([], [''[winreg_task_cache] unsupported DynamicInfo value data size.''])"
    using task_body_unsupported [OF assms len]
    by (simp add: unsupported_DynamicInfo_def NAME_def)
next
  fix decoder :: "string \<Rightarrow> error + dynamic_info_record"
  assume len: "length (raw_data v) \<noteq> 28"
  show "task_body_with decoder key registry_type task_guids sub_key =
          Inr ([], [''[winreg_task_cache] unsupported DynamicInfo value data size.''])"
    using task_body_with_unsupported [OF assms len]
    by (simp add: unsupported_DynamicInfo_def NAME_def)
next
  fix before after evs1 ws1 evs2 ws2
  assume len: "length (raw_data v) \<noteq> 28"
    and b: "tasks_loop key registry_type task_guids before = Inr (evs1, ws1)"
    and a: "tasks_loop key registry_type task_guids after = Inr (evs2, ws2)"
  have "tasks_loop key registry_type task_guids (sub_key # after) =
          Inr ([] @ evs2, [unsupported_DynamicInfo] @ ws2)"
    using task_body_unsupported [OF assms len] a by (rule tasks_loop_Cons)
  from tasks_loop_append [OF b this]
  show "tasks_loop key registry_type task_guids (before @ sub_key # after) =
          Inr (evs1 @ evs2,
               ws1 @ ''[winreg_task_cache] unsupported DynamicInfo value data size.'' # ws2)"
    by (simp add: unsupported_DynamicInfo_def NAME_def)
qed

text \<open>
  On the example key: the first task has a value of 28 bytes, the third one of 30 bytes,
  and the loop over the third and then the first task goes on after the warning. With a
  decoder that always raises, the body raises for the first task and not for the third.
\<close>

theorem C2_dynamic_info_size_witness:
  "GetValue example_task ''DynamicInfo'' = Some example_dynamic_info_value
   \<and> length (raw_data example_dynamic_info_value) = 28
   \<and> (\<exists>di evs. DYNAMIC_INFO_STRUCT_parse (raw_data example_dynamic_info_value) = Inr di
        \<and> task_body example_task_cache None Map.empty example_task = Inr (evs, []))
   \<and> task_body_with (\<lambda>s. Inl FieldError) example_task_cache None Map.empty example_task =
       Inl FieldError
   \<and> GetValue example_task_thirty ''DynamicInfo'' = Some example_thirty_value
   \<and> length (raw_data example_thirty_value) \<noteq> 28
   \<and> task_body example_task_cache None Map.empty example_task_thirty =
       Inr ([], [''[winreg_task_cache] unsupported DynamicInfo value data size.''])
   \<and> task_body_with (\<lambda>s. Inl FieldError) example_task_cache None Map.empty
       example_task_thirty =
       Inr ([], [''[winreg_task_cache] unsupported DynamicInfo value data size.''])
   \<and> tasks_loop example_task_cache None Map.empty ([] @ example_task_thirty # [example_task]) =
       Inr ([] @ [WindowsRegistryEvent 9 task_cache_path
                    [(''Task: {01234567-89AB-CDEF-0123-456789ABCDEF}'',
                      ''[ID: {01234567-89AB-CDEF-0123-456789ABCDEF}]'')] 4096 None,
                  TaskCacheEvent 100 ''Last registered time'' example_guid example_guid],
            [] @ ''[winreg_task_cache] unsupported DynamicInfo value data size.'' # [])"
proof -
  have h1: "GetValue example_task ''DynamicInfo'' = Some example_dynamic_info_value"
    by code_simp
  have l1: "length (raw_data example_dynamic_info_value) = 28"
    by code_simp
  have h2: "GetValue example_task_thirty ''DynamicInfo'' = Some example_thirty_value"
    by code_simp
  have l2: "length (raw_data example_thirty_value) \<noteq> 28"
    by code_simp
  have b: "tasks_loop example_task_cache None Map.empty [] = Inr ([], [])"
    by simp
  have a: "tasks_loop example_task_cache None Map.empty [example_task] =
      Inr ([WindowsRegistryEvent 9 task_cache_path
              [(''Task: {01234567-89AB-CDEF-0123-456789ABCDEF}'',
                ''[ID: {01234567-89AB-CDEF-0123-456789ABCDEF}]'')] 4096 None,
            TaskCacheEvent 100 ''Last registered time'' example_guid example_guid], [])"
    by code_simp
  note first = C2_dynamic_info_size [OF h1, of example_task_cache None Map.empty]
  note third = C2_dynamic_info_size [OF h2, of example_task_cache None Map.empty]
  from first l1 have p1:
    "\<exists>di evs. DYNAMIC_INFO_STRUCT_parse (raw_data example_dynamic_info_value) = Inr di
        \<and> task_body example_task_cache None Map.empty example_task = Inr (evs, [])"
    by blast
  from third l2 have p2:
    "task_body example_task_cache None Map.empty example_task_thirty =
       Inr ([], [''[winreg_task_cache] unsupported DynamicInfo value data size.''])"
    by blast
  note raises = first [THEN conjunct1, THEN mp, OF l1, THEN conjunct2]
  from raises [rule_format, of "\<lambda>s. Inl FieldError" FieldError] have p1':
    "task_body_with (\<lambda>s. Inl FieldError) example_task_cache None Map.empty example_task =
       Inl FieldError"
    by simp
  note skips = third [THEN conjunct2, THEN mp, OF l2, THEN conjunct2, THEN conjunct1]
  from skips [rule_format, of "\<lambda>s. Inl FieldError"] have p2':
    "task_body_with (\<lambda>s. Inl FieldError) example_task_cache None Map.empty
       example_task_thirty =
       Inr ([], [''[winreg_task_cache] unsupported DynamicInfo value data size.''])" .
  from third l2 b a have p3:
    "tasks_loop example_task_cache None Map.empty ([] @ example_task_thirty # [example_task]) =
       Inr ([] @ [WindowsRegistryEvent 9 task_cache_path
                    [(''Task: {01234567-89AB-CDEF-0123-456789ABCDEF}'',
                      ''[ID: {01234567-89AB-CDEF-0123-456789ABCDEF}]'')] 4096 None,
                  TaskCacheEvent 100 ''Last registered time'' example_guid example_guid],
            [] @ ''[winreg_task_cache] unsupported DynamicInfo value data size.'' # [])"
    by blast
  from h1 l1 p1 p1' h2 l2 p2 p2' p3 show ?thesis
    by (intro conjI)
qed

subsection \<open>The timestamped observations\<close>

text \<open>
  Claim C3. For a task sub key whose \<^verbatim>\<open>DynamicInfo\<close> value has the size of the record and
  is decoded to a record \<open>di\<close>: an event with the description "Last registered time" is
  produced if and only if \<open>last_registered_time di\<close> is not zero, an event with the
  description "Launch time" if and only if \<open>launch_time di\<close> is not zero, and the
  timestamped events produced are exactly these event objects: the timestamp is the
  value of the field, the task name is the name stored in \<^verbatim>\<open>task_guids\<close> under the name
  of the sub key, or that name itself when there is none, and the task identifier is
  the name of the sub key.
\<close>

theorem C3_timestamped_observations:
  assumes "GetValue sub_key ''DynamicInfo'' = Some v"
    and "length (raw_data v) = DYNAMIC_INFO_STRUCT_SIZE"
    and "DYNAMIC_INFO_STRUCT_parse (raw_data v) = Inr di"
  shows "\<exists>evs. task_body key registry_type task_guids sub_key = Inr (evs, [])
     \<and> ((\<exists>e\<in>set evs. event_timestamp_desc e = Some ''Last registered time'')
          \<longleftrightarrow> last_registered_time di \<noteq> 0)
     \<and> ((\<exists>e\<in>set evs. event_timestamp_desc e = Some ''Launch time'')
          \<longleftrightarrow> launch_time di \<noteq> 0)
     \<and> filter is_TaskCacheEvent evs =
         (if last_registered_time di \<noteq> 0
          then [TaskCacheEventObject (last_registered_time di) ''Last registered time'' 0
                  (case task_guids (name sub_key) of
                     None \<Rightarrow> name sub_key
                   | Some tree_name \<Rightarrow> tree_name)
                  (name sub_key)]
          else [])
         @ (if launch_time di \<noteq> 0
            then [TaskCacheEventObject (launch_time di) ''Launch time'' 0
                    (case task_guids (name sub_key) of
                       None \<Rightarrow> name sub_key
                     | Some tree_name \<Rightarrow> tree_name)
                    (name sub_key)]
            else [])"
proof -
  have len: "length (raw_data v) = 28"
    using assms(2) by (simp add: DYNAMIC_INFO_STRUCT_SIZE_28)
  note body = task_body_supported [OF assms(1) len assms(3),
      where key = key and g = task_guids and rt = registry_type]
  show ?thesis
    unfolding body by (auto simp: TaskCacheEvent_def task_guids_get_def)
qed

text \<open>
  The first task of the example key, with last registered time 100 and launch time 0,
  resolved through the example tree to "MyTask"; and a task with last registered time 0
  and launch time 513 that the tree does not name. The last two lines are the events
  the body produces for the two tasks, computed from the definitions.
\<close>

theorem C3_timestamped_observations_witness:
  "GetValue example_task ''DynamicInfo'' = Some example_dynamic_info_value
   \<and> length (raw_data example_dynamic_info_value) = DYNAMIC_INFO_STRUCT_SIZE
   \<and> DYNAMIC_INFO_STRUCT_parse (raw_data example_dynamic_info_value) =
       Inr \<lparr>version = 3, last_registered_time = 100, launch_time = 0\<rparr>
   \<and> (\<exists>evs. task_body example_task_cache None (fst (build_task_guids example_tree))
               example_task = Inr (evs, [])
        \<and> (\<exists>e\<in>set evs. event_timestamp_desc e = Some ''Last registered time'')
        \<and> \<not> (\<exists>e\<in>set evs. event_timestamp_desc e = Some ''Launch time'')
        \<and> filter is_TaskCacheEvent evs =
            [TaskCacheEventObject 100 ''Last registered time'' 0 ''MyTask''
               ''{01234567-89AB-CDEF-0123-456789ABCDEF}''])
   \<and> GetValue example_launched_task ''DynamicInfo'' = Some example_launched_value
   \<and> length (raw_data example_launched_value) = DYNAMIC_INFO_STRUCT_SIZE
   \<and> DYNAMIC_INFO_STRUCT_parse (raw_data example_launched_value) =
       Inr \<lparr>version = 3, last_registered_time = 0, launch_time = 513\<rparr>
   \<and> (\<exists>evs. task_body example_task_cache None (fst (build_task_guids example_tree))
               example_launched_task = Inr (evs, [])
        \<and> \<not> (\<exists>e\<in>set evs. event_timestamp_desc e = Some ''Last registered time'')
        \<and> (\<exists>e\<in>set evs. event_timestamp_desc e = Some ''Launch time'')
        \<and> filter is_TaskCacheEvent evs =
            [TaskCacheEventObject 513 ''Launch time'' 0 ''{launched}'' ''{launched}''])
   \<and> task_body example_task_cache None (fst (build_task_guids example_tree)) example_task =
       Inr ([WindowsRegistryEvent 9 task_cache_path
               [(''Task: MyTask'', ''[ID: {01234567-89AB-CDEF-0123-456789ABCDEF}]'')]
               4096 None,
             TaskCacheEventObject 100 ''Last registered time'' 0 ''MyTask''
               ''{01234567-89AB-CDEF-0123-456789ABCDEF}''], [])
   \<and> task_body example_task_cache None (fst (build_task_guids example_tree))
         example_launched_task =
       Inr ([WindowsRegistryEvent 9 task_cache_path
               [(''Task: {launched}'', ''[ID: {launched}]'')] 4096 None,
             TaskCacheEventObject 513 ''Launch time'' 0 ''{launched}'' ''{launched}''], [])"
proof -
  have b1: "task_body example_task_cache None (fst (build_task_guids example_tree))
       example_task =
       Inr ([WindowsRegistryEvent 9 task_cache_path
               [(''Task: MyTask'', ''[ID: {01234567-89AB-CDEF-0123-456789ABCDEF}]'')]
               4096 None,
             TaskCacheEventObject 100 ''Last registered time'' 0 ''MyTask''
               ''{01234567-89AB-CDEF-0123-456789ABCDEF}''], [])"
    by code_simp
  have b2: "task_body example_task_cache None (fst (build_task_guids example_tree))
         example_launched_task =
       Inr ([WindowsRegistryEvent 9 task_cache_path
               [(''Task: {launched}'', ''[ID: {launched}]'')] 4096 None,
             TaskCacheEventObject 513 ''Launch time'' 0 ''{launched}'' ''{launched}''], [])"
    by code_simp
  have h1: "GetValue example_task ''DynamicInfo'' = Some example_dynamic_info_value"
    by code_simp
  have h2: "length (raw_data example_dynamic_info_value) = DYNAMIC_INFO_STRUCT_SIZE"
    by code_simp
  have h3: "DYNAMIC_INFO_STRUCT_parse (raw_data example_dynamic_info_value) =
       Inr \<lparr>version = 3, last_registered_time = 100, launch_time = 0\<rparr>"
    by code_simp
  have id: "name example_task = ''{01234567-89AB-CDEF-0123-456789ABCDEF}''"
    by code_simp
  have g: "fst (build_task_guids example_tree) ''{01234567-89AB-CDEF-0123-456789ABCDEF}''
      = Some ''MyTask''"
    by code_simp
  have k1: "GetValue example_launched_task ''DynamicInfo'' = Some example_launched_value"
    by code_simp
  have k2: "length (raw_data example_launched_value) = DYNAMIC_INFO_STRUCT_SIZE"
    by code_simp
  have k3: "DYNAMIC_INFO_STRUCT_parse (raw_data example_launched_value) =
       Inr \<lparr>version = 3, last_registered_time = 0, launch_time = 513\<rparr>"
    by code_simp
  have id': "name example_launched_task = ''{launched}''"
    by code_simp
  have g': "fst (build_task_guids example_tree) ''{launched}'' = None"
    by code_simp
  from C3_timestamped_observations [OF h1 h2 h3,
      of example_task_cache None "fst (build_task_guids example_tree)"]
  have r1: "\<exists>evs. task_body example_task_cache None (fst (build_task_guids example_tree))
               example_task = Inr (evs, [])
        \<and> (\<exists>e\<in>set evs. event_timestamp_desc e = Some ''Last registered time'')
        \<and> \<not> (\<exists>e\<in>set evs. event_timestamp_desc e = Some ''Launch time'')
        \<and> filter is_TaskCacheEvent evs =
            [TaskCacheEventObject 100 ''Last registered time'' 0 ''MyTask''
               ''{01234567-89AB-CDEF-0123-456789ABCDEF}'']"
    unfolding id g by simp
  from C3_timestamped_observations [OF k1 k2 k3,
      of example_task_cache None "fst (build_task_guids example_tree)"]
  have r2: "\<exists>evs. task_body example_task_cache None (fst (build_task_guids example_tree))
               example_launched_task = Inr (evs, [])
        \<and> \<not> (\<exists>e\<in>set evs. event_timestamp_desc e = Some ''Last registered time'')
        \<and> (\<exists>e\<in>set evs. event_timestamp_desc e = Some ''Launch time'')
        \<and> filter is_TaskCacheEvent evs =
            [TaskCacheEventObject 513 ''Launch time'' 0 ''{launched}'' ''{launched}'']"
    unfolding id' g' by simp
  from h1 h2 h3 r1 k1 k2 k3 r2 b1 b2 show ?thesis by (intro conjI)
qed

subsection \<open>Name resolution\<close>

text \<open>
  Claim C6. Every event the loop body produces for a task sub key displays as task name
  the name of the sub key itself when that name is not a key of \<^verbatim>\<open>task_guids\<close>, and the
  name stored in \<^verbatim>\<open>task_guids\<close> when it is: the generic event in the key of its text
  dictionary ("Task: " followed by the name), a timestamped event in the task name of the
  event object, next to the name of the sub key as task identifier.
\<close>

theorem C6_name_resolution:
  assumes "task_body key registry_type task_guids sub_key = Inr (evs, ws)"
    and "e \<in> set evs"
  shows "\<exists>nm. nm = (case task_guids (name sub_key) of
                      None \<Rightarrow> name sub_key
                    | Some tree_name \<Rightarrow> tree_name)
     \<and> (e = WindowsRegistryEvent (last_written_timestamp key) (path key)
                [(''Task: '' @ nm, ''[ID: '' @ name sub_key @ '']'')]
                (offset key) registry_type
          \<or> (\<exists>t d. e = TaskCacheEventObject t d 0 nm (name sub_key)))"
  using task_body_event [OF assms] by (auto simp: task_guids_get_def TaskCacheEvent_def)

text \<open>
  The timestamped event of the first task of the example key: with the example tree its
  task name is "MyTask", with a tree without \<^verbatim>\<open>Id\<close> values it is the name of the sub key.
\<close>

theorem C6_name_resolution_witness:
  "task_body example_task_cache None (fst (build_task_guids example_tree)) example_task =
     Inr ([WindowsRegistryEvent 9 task_cache_path
             [(''Task: MyTask'', ''[ID: {01234567-89AB-CDEF-0123-456789ABCDEF}]'')] 4096 None,
           TaskCacheEventObject 100 ''Last registered time'' 0 ''MyTask''
             ''{01234567-89AB-CDEF-0123-456789ABCDEF}''], [])
   \<and> fst (build_task_guids example_tree) (name example_task) = Some ''MyTask''
   \<and> (\<exists>nm. nm = ''MyTask''
        \<and> (TaskCacheEventObject 100 ''Last registered time'' 0 ''MyTask''
              ''{01234567-89AB-CDEF-0123-456789ABCDEF}'' =
              WindowsRegistryEvent (last_written_timestamp example_task_cache)
                (path example_task_cache)
                [(''Task: '' @ nm, ''[ID: '' @ name example_task @ '']'')]
                (offset example_task_cache) None
            \<or> (\<exists>t d. TaskCacheEventObject 100 ''Last registered time'' 0 ''MyTask''
                  ''{01234567-89AB-CDEF-0123-456789ABCDEF}'' =
                  TaskCacheEventObject t d 0 nm (name example_task))))
   \<and> task_body example_task_cache None (fst (build_task_guids example_bare_tree))
       example_task =
     Inr ([WindowsRegistryEvent 9 task_cache_path
             [(''Task: {01234567-89AB-CDEF-0123-456789ABCDEF}'',
               ''[ID: {01234567-89AB-CDEF-0123-456789ABCDEF}]'')] 4096 None,
           TaskCacheEventObject 100 ''Last registered time'' 0
             ''{01234567-89AB-CDEF-0123-456789ABCDEF}''
             ''{01234567-89AB-CDEF-0123-456789ABCDEF}''], [])
   \<and> fst (build_task_guids example_bare_tree) (name example_task) = None
   \<and> (\<exists>nm. nm = name example_task
        \<and> (TaskCacheEventObject 100 ''Last registered time'' 0
              ''{01234567-89AB-CDEF-0123-456789ABCDEF}''
              ''{01234567-89AB-CDEF-0123-456789ABCDEF}'' =
              WindowsRegistryEvent (last_written_timestamp example_task_cache)
                (path example_task_cache)
                [(''Task: '' @ nm, ''[ID: '' @ name example_task @ '']'')]
                (offset example_task_cache) None
            \<or> (\<exists>t d. TaskCacheEventObject 100 ''Last registered time'' 0
                  ''{01234567-89AB-CDEF-0123-456789ABCDEF}''
                  ''{01234567-89AB-CDEF-0123-456789ABCDEF}'' =
                  TaskCacheEventObject t d 0 nm (name example_task))))"
proof -
  have b1: "task_body example_task_cache None (fst (build_task_guids example_tree))
      example_task =
     Inr ([WindowsRegistryEvent 9 task_cache_path
             [(''Task: MyTask'', ''[ID: {01234567-89AB-CDEF-0123-456789ABCDEF}]'')] 4096 None,
           TaskCacheEventObject 100 ''Last registered time'' 0 ''MyTask''
             ''{01234567-89AB-CDEF-0123-456789ABCDEF}''], [])"
    by code_simp
  have g1: "fst (build_task_guids example_tree) (name example_task) = Some ''MyTask''"
    by code_simp
  have b2: "task_body example_task_cache None (fst (build_task_guids example_bare_tree))
       example_task =
     Inr ([WindowsRegistryEvent 9 task_cache_path
             [(''Task: {01234567-89AB-CDEF-0123-456789ABCDEF}'',
               ''[ID: {01234567-89AB-CDEF-0123-456789ABCDEF}]'')] 4096 None,
           TaskCacheEventObject 100 ''Last registered time'' 0
             ''{01234567-89AB-CDEF-0123-456789ABCDEF}''
             ''{01234567-89AB-CDEF-0123-456789ABCDEF}''], [])"
    by code_simp
  have g2: "fst (build_task_guids example_bare_tree) (name example_task) = None"
    by code_simp
  have r1: "\<exists>nm. nm = ''MyTask''
        \<and> (TaskCacheEventObject 100 ''Last registered time'' 0 ''MyTask''
              ''{01234567-89AB-CDEF-0123-456789ABCDEF}'' =
              WindowsRegistryEvent (last_written_timestamp example_task_cache)
                (path example_task_cache)
                [(''Task: '' @ nm, ''[ID: '' @ name example_task @ '']'')]
                (offset example_task_cache) None
            \<or> (\<exists>t d. TaskCacheEventObject 100 ''Last registered time'' 0 ''MyTask''
                  ''{01234567-89AB-CDEF-0123-456789ABCDEF}'' =
                  TaskCacheEventObject t d 0 nm (name example_task)))"
    using C6_name_resolution [OF b1,
        of "TaskCacheEventObject 100 ''Last registered time'' 0 ''MyTask''
              ''{01234567-89AB-CDEF-0123-456789ABCDEF}''"]
    unfolding g1 by simp
  have r2: "\<exists>nm. nm = name example_task
        \<and> (TaskCacheEventObject 100 ''Last registered time'' 0
              ''{01234567-89AB-CDEF-0123-456789ABCDEF}''
              ''{01234567-89AB-CDEF-0123-456789ABCDEF}'' =
              WindowsRegistryEvent (last_written_timestamp example_task_cache)
                (path example_task_cache)
                [(''Task: '' @ nm, ''[ID: '' @ name example_task @ '']'')]
                (offset example_task_cache) None
            \<or> (\<exists>t d. TaskCacheEventObject 100 ''Last registered time'' 0
                  ''{01234567-89AB-CDEF-0123-456789ABCDEF}''
                  ''{01234567-89AB-CDEF-0123-456789ABCDEF}'' =
                  TaskCacheEventObject t d 0 nm (name example_task)))"
    using C6_name_resolution [OF b2,
        of "TaskCacheEventObject 100 ''Last registered time'' 0
              ''{01234567-89AB-CDEF-0123-456789ABCDEF}''
              ''{01234567-89AB-CDEF-0123-456789ABCDEF}''"]
    unfolding g2 by simp
  from b1 g1 r1 b2 g2 r2 show ?thesis
    by (intro conjI)
qed

subsection \<open>What a timestamped observation carries\<close>

text \<open>
  Claim C8, as the code has it. A \<^verbatim>\<open>TaskCacheEvent\<close> is built from four arguments
  (lines 148 to 150 and 155 to 156): the timestamp, its description, the resolved task
  name and the task identifier; its constructor sets \<^verbatim>\<open>offset\<close> to 0 (line 47). So every
  timestamped observation \<^verbatim>\<open>GetEntries\<close> produces carries a nonzero 64-bit timestamp, the
  label "Last registered time" or "Launch time", the resolved name and the name of a
  sub key of \<^verbatim>\<open>Tasks\<close>, and the offset 0; it carries neither the path of the key nor the
  Registry type, which only the generic observation carries.
\<close>

theorem C8_timestamped_payload:
  assumes "GetSubkey key ''Tasks'' = Some tasks_key"
    and "GetSubkey key ''Tree'' = Some tree_key"
    and "GetEntries key registry_type = Inr (evs, ws)"
    and "e \<in> set evs"
    and "is_TaskCacheEvent e"
  shows "event_offset e = 0 \<and> event_path e = None \<and> event_registry_type e = None
     \<and> (\<exists>sub_key\<in>set (GetSubkeys tasks_key). \<exists>t d.
           e = TaskCacheEventObject t d 0
                 (task_guids_get (fst (build_task_guids tree_key))
                    (name sub_key) (name sub_key))
                 (name sub_key)
           \<and> t \<noteq> 0 \<and> (d = ''Last registered time'' \<or> d = ''Launch time''))"
proof -
  obtain evs' ws' where
    loop: "tasks_loop key registry_type (fst (build_task_guids tree_key))
             (GetSubkeys tasks_key) = Inr (evs', ws')"
    using tasks_loop_total by blast
  have "evs = evs'"
    using GetEntries_both [OF assms(1,2) loop] assms(3) by simp
  then have "e \<in> set evs'"
    using assms(4) by simp
  from tasks_loop_mem [OF loop this] obtain sub_key evs'' ws'' where
    sk: "sub_key \<in> set (GetSubkeys tasks_key)"
    and body: "task_body key registry_type (fst (build_task_guids tree_key)) sub_key
                 = Inr (evs'', ws'')"
    and mem: "e \<in> set evs''"
    by blast
  from task_body_event [OF body mem] assms(5) obtain t d where
    e: "e = TaskCacheEvent t d
              (task_guids_get (fst (build_task_guids tree_key)) (name sub_key) (name sub_key))
              (name sub_key)"
    and td: "t \<noteq> 0" "d = ''Last registered time'' \<or> d = ''Launch time''"
    by auto
  show ?thesis
    using sk e td by (auto simp: TaskCacheEvent_def)
qed

text \<open>The timestamped observation of the example key.\<close>

theorem C8_timestamped_payload_witness:
  "GetSubkey example_task_cache ''Tasks'' = Some example_tasks
   \<and> GetSubkey example_task_cache ''Tree'' = Some example_tree
   \<and> GetEntries example_task_cache (Some ''SOFTWARE'') =
       Inr ([WindowsRegistryEvent 9 task_cache_path
               [(''Task: MyTask'', ''[ID: {01234567-89AB-CDEF-0123-456789ABCDEF}]'')]
               4096 (Some ''SOFTWARE''),
             TaskCacheEvent 100 ''Last registered time'' ''MyTask'' example_guid],
            [unsupported_Id, unsupported_DynamicInfo])
   \<and> is_TaskCacheEvent (TaskCacheEvent 100 ''Last registered time'' ''MyTask'' example_guid)
   \<and> event_offset (TaskCacheEvent 100 ''Last registered time'' ''MyTask'' example_guid) = 0
   \<and> event_path (TaskCacheEvent 100 ''Last registered time'' ''MyTask'' example_guid) = None
   \<and> event_registry_type
       (TaskCacheEvent 100 ''Last registered time'' ''MyTask'' example_guid) = None"
proof -
  have h1: "GetSubkey example_task_cache ''Tasks'' = Some example_tasks"
    by code_simp
  have h2: "GetSubkey example_task_cache ''Tree'' = Some example_tree"
    by code_simp
  have h3: "GetEntries example_task_cache (Some ''SOFTWARE'') =
       Inr ([WindowsRegistryEvent 9 task_cache_path
               [(''Task: MyTask'', ''[ID: {01234567-89AB-CDEF-0123-456789ABCDEF}]'')]
               4096 (Some ''SOFTWARE''),
             TaskCacheEvent 100 ''Last registered time'' ''MyTask'' example_guid],
            [unsupported_Id, unsupported_DynamicInfo])"
    by code_simp
  have h4: "TaskCacheEvent 100 ''Last registered time'' ''MyTask'' example_guid
      \<in> set [WindowsRegistryEvent 9 task_cache_path
               [(''Task: MyTask'', ''[ID: {01234567-89AB-CDEF-0123-456789ABCDEF}]'')]
               4096 (Some ''SOFTWARE''),
             TaskCacheEvent 100 ''Last registered time'' ''MyTask'' example_guid]"
    by simp
  have h5: "is_TaskCacheEvent
      (TaskCacheEvent 100 ''Last registered time'' ''MyTask'' example_guid)"
    by (simp add: TaskCacheEvent_def)
  from C8_timestamped_payload [OF h1 h2 h3 h4 h5] h1 h2 h3 h5 show ?thesis
    by blast
qed

text \<open>
  The sentence of C8 as it is written fails on the example key: the key handed to
  \<^verbatim>\<open>GetEntries\<close> is at offset 4096 and the Registry type is "SOFTWARE", and the timestamped
  observation produced has the offset 0, no path and no Registry type.
\<close>

theorem C8_timestamped_payload_counterexample:
  "GetEntries example_task_cache (Some ''SOFTWARE'') =
       Inr ([WindowsRegistryEvent 9 task_cache_path
               [(''Task: MyTask'', ''[ID: {01234567-89AB-CDEF-0123-456789ABCDEF}]'')]
               4096 (Some ''SOFTWARE''),
             TaskCacheEventObject 100 ''Last registered time'' 0 ''MyTask'' example_guid],
            [unsupported_Id, unsupported_DynamicInfo])
   \<and> offset example_task_cache = 4096
   \<and> event_offset
       (TaskCacheEventObject 100 ''Last registered time'' 0 ''MyTask'' example_guid)
       \<noteq> offset example_task_cache
   \<and> event_path
       (TaskCacheEventObject 100 ''Last registered time'' 0 ''MyTask'' example_guid) = None
   \<and> event_registry_type
       (TaskCacheEventObject 100 ''Last registered time'' 0 ''MyTask'' example_guid) = None"
  by code_simp

subsection \<open>The dictionary of task names\<close>

text \<open>
  Claim C5, as the code has it. Line 119 writes \<^verbatim>\<open>task_guids[id_value.data] = value_key.name\<close>:
  the dictionary is keyed by the \<^verbatim>\<open>data\<close> attribute of each accepted \<^verbatim>\<open>Id\<close> value (the
  interpreted value, not the bytes \<^verbatim>\<open>raw_data\<close>, which only the size test reads), and the
  value stored is the name of the key that declares the \<^verbatim>\<open>Id\<close> value. The dictionary is
  the one obtained by writing the entries of the accepted pairs in the order of the
  traversal, and of the accepted pairs with the same \<^verbatim>\<open>data\<close> the one yielded last gives
  the name.
\<close>

theorem C5_task_guids:
  assumes "id_pairs tree_key = ps @ (value_key, id_value) # qs"
    and "length (raw_data id_value) = 78"
    and "\<forall>q\<in>set qs. length (raw_data (snd q)) = 78 \<longrightarrow> data (snd q) \<noteq> data id_value"
  shows "fst (build_task_guids tree_key) (data id_value) = Some (name value_key)
     \<and> fst (build_task_guids tree_key) =
         map_of (rev (map entry_of (filter accepted (id_pairs tree_key))))"
proof -
  have "filter accepted (id_pairs tree_key) =
          filter accepted ps @ (value_key, id_value) # filter accepted qs"
    using assms(1,2) by (simp add: accepted_def)
  then have split: "map entry_of (filter accepted (id_pairs tree_key)) =
      map entry_of (filter accepted ps) @ (data id_value, name value_key)
        # map entry_of (filter accepted qs)"
    by (simp add: entry_of_def)
  have "\<forall>q\<in>set (map entry_of (filter accepted qs)). fst q \<noteq> data id_value"
    using assms(3) by (auto simp: entry_of_def accepted_def)
  then have "map_of (rev (map entry_of (filter accepted (id_pairs tree_key)))) (data id_value)
      = Some (name value_key)"
    unfolding split by (rule map_of_rev_last)
  then show ?thesis
    by (simp add: build_task_guids_fst)
qed

text \<open>
  A tree in which the keys "First" and "Second" declare the same identifier: the
  dictionary maps it to "Second".
\<close>

theorem C5_task_guids_witness:
  "id_pairs example_twice = [(example_first, example_id_value)]
       @ (example_second, example_id_value) # []
   \<and> length (raw_data example_id_value) = 78
   \<and> fst (build_task_guids example_twice) (data example_id_value)
       = Some (name example_second)
   \<and> name example_second = ''Second''"
proof -
  have h1: "id_pairs example_twice = [(example_first, example_id_value)]
       @ (example_second, example_id_value) # []"
    by code_simp
  have h2: "length (raw_data example_id_value) = 78"
    by code_simp
  have h3: "\<forall>q\<in>set []. length (raw_data (snd q)) = 78
      \<longrightarrow> data (snd q) \<noteq> data example_id_value"
    by simp
  have h4: "name example_second = ''Second''"
    by code_simp
  from C5_task_guids [OF h1 h2 h3] h1 h2 h4 show ?thesis
    by blast
qed

text \<open>
  The sentence of C5 as it is written fails on the example tree: the \<^verbatim>\<open>Id\<close> value of
  "MyTask" is accepted (its \<^verbatim>\<open>raw_data\<close> holds 78 bytes), the dictionary has no entry
  under these bytes, and it has the entry "MyTask" under the value's \<^verbatim>\<open>data\<close>.
\<close>

theorem C5_task_guids_counterexample:
  "id_pairs example_tree =
     [(example_my_task, example_id_value), (example_broken, example_short_id_value)]
   \<and> length (raw_data example_id_value) = 78
   \<and> fst (build_task_guids example_tree) (raw_data example_id_value) = None
   \<and> fst (build_task_guids example_tree) (data example_id_value) = Some ''MyTask''"
  by code_simp

text \<open>
  Claim C7. An \<^verbatim>\<open>Id\<close> value enters the dictionary only if its \<^verbatim>\<open>raw_data\<close> holds exactly
  78 bytes: every entry of the dictionary comes from a pair whose value has 78 bytes;
  there is exactly one warning "unsupported Id value data size" for each pair whose
  value has another size; the dictionary is the one the loop builds from the accepted
  pairs alone, so a rejected value changes nothing for the values that follow it; and
  every accepted value has an entry.
\<close>

theorem C7_unsupported_Id:
  "(\<forall>d n. fst (build_task_guids tree_key) d = Some n \<longrightarrow>
        (\<exists>p\<in>set (id_pairs tree_key).
            length (raw_data (snd p)) = 78 \<and> data (snd p) = d \<and> name (fst p) = n))
   \<and> snd (build_task_guids tree_key) =
       replicate (length (filter (\<lambda>p. length (raw_data (snd p)) \<noteq> 78) (id_pairs tree_key)))
         ''[winreg_task_cache] unsupported Id value data size.''
   \<and> fst (build_task_guids tree_key) =
       fst (id_value_loop (filter (\<lambda>p. length (raw_data (snd p)) = 78) (id_pairs tree_key))
              (Map.empty, []))
   \<and> (\<forall>p\<in>set (id_pairs tree_key). length (raw_data (snd p)) = 78 \<longrightarrow>
        fst (build_task_guids tree_key) (data (snd p)) \<noteq> None)"
proof (intro conjI allI impI ballI)
  fix d n
  assume "fst (build_task_guids tree_key) d = Some n"
  then have "(d, n) \<in> set (map entry_of (filter accepted (id_pairs tree_key)))"
    unfolding build_task_guids_fst using map_of_SomeD by fastforce
  then show "\<exists>p\<in>set (id_pairs tree_key).
      length (raw_data (snd p)) = 78 \<and> data (snd p) = d \<and> name (fst p) = n"
    by (auto simp: entry_of_def accepted_def)
next
  have "(\<lambda>p. \<not> accepted p) = (\<lambda>p. length (raw_data (snd p)) \<noteq> 78)"
    by (simp add: accepted_def fun_eq_iff)
  then show "snd (build_task_guids tree_key) =
       replicate (length (filter (\<lambda>p. length (raw_data (snd p)) \<noteq> 78) (id_pairs tree_key)))
         ''[winreg_task_cache] unsupported Id value data size.''"
    by (simp add: build_task_guids_snd unsupported_Id_def NAME_def)
next
  have "accepted = (\<lambda>p. length (raw_data (snd p)) = 78)"
    by (simp add: accepted_def fun_eq_iff)
  then show "fst (build_task_guids tree_key) =
       fst (id_value_loop (filter (\<lambda>p. length (raw_data (snd p)) = 78) (id_pairs tree_key))
              (Map.empty, []))"
    using build_task_guids_unaffected [of tree_key] by simp
next
  fix p
  assume p: "p \<in> set (id_pairs tree_key)" and len: "length (raw_data (snd p)) = 78"
  then have "data (snd p) \<in> fst ` set (rev (map entry_of (filter accepted (id_pairs tree_key))))"
    by (force simp: entry_of_def accepted_def)
  then show "fst (build_task_guids tree_key) (data (snd p)) \<noteq> None"
    unfolding build_task_guids_fst by (simp add: map_of_eq_None_iff)
qed

text \<open>
  The example tree: the value of "MyTask" has 78 bytes and gives the one entry, the
  value of "Broken" has 4 bytes and gives the one warning.
\<close>

theorem C7_unsupported_Id_witness:
  "fst (build_task_guids example_tree) example_guid = Some ''MyTask''
   \<and> (\<exists>p\<in>set (id_pairs example_tree).
         length (raw_data (snd p)) = 78 \<and> data (snd p) = example_guid
         \<and> name (fst p) = ''MyTask'')
   \<and> (example_my_task, example_id_value) \<in> set (id_pairs example_tree)
   \<and> length (raw_data (snd (example_my_task, example_id_value))) = 78
   \<and> fst (build_task_guids example_tree) (data (snd (example_my_task, example_id_value)))
       \<noteq> None
   \<and> (example_broken, example_short_id_value) \<in> set (id_pairs example_tree)
   \<and> length (raw_data example_short_id_value) = 4
   \<and> fst (build_task_guids example_tree) (data example_short_id_value) = None
   \<and> snd (build_task_guids example_tree) =
       [''[winreg_task_cache] unsupported Id value data size.'']"
proof -
  note c7 = C7_unsupported_Id [of example_tree]
  have pairs: "id_pairs example_tree =
     [(example_my_task, example_id_value), (example_broken, example_short_id_value)]"
    by code_simp
  have g: "fst (build_task_guids example_tree) example_guid = Some ''MyTask''"
    by code_simp
  have m1: "(example_my_task, example_id_value) \<in> set (id_pairs example_tree)"
    unfolding pairs by simp
  have l1: "length (raw_data (snd (example_my_task, example_id_value))) = 78"
    by code_simp
  have m2: "(example_broken, example_short_id_value) \<in> set (id_pairs example_tree)"
    unfolding pairs by simp
  have l2: "length (raw_data example_short_id_value) = 4"
    by code_simp
  have n2: "fst (build_task_guids example_tree) (data example_short_id_value) = None"
    by code_simp
  have cnt: "length (filter (\<lambda>p. length (raw_data (snd p)) \<noteq> 78) (id_pairs example_tree))
      = Suc 0"
    by code_simp
  from c7 g have r1: "\<exists>p\<in>set (id_pairs example_tree).
         length (raw_data (snd p)) = 78 \<and> data (snd p) = example_guid
         \<and> name (fst p) = ''MyTask''"
    by blast
  from c7 m1 l1 have r2:
    "fst (build_task_guids example_tree) (data (snd (example_my_task, example_id_value)))
       \<noteq> None"
    by blast
  from c7 have r3: "snd (build_task_guids example_tree) =
       [''[winreg_task_cache] unsupported Id value data size.'']"
    unfolding cnt by simp
  from g r1 m1 l1 r2 m2 l2 n2 r3 show ?thesis
    by (intro conjI)
qed

subsection \<open>The pairs that \<^verbatim>\<open>_GetIdValue\<close> yields\<close>

text \<open>
  Claim C9. For any key, \<^verbatim>\<open>_GetIdValue\<close> yields exactly the pairs of a key and its
  \<^verbatim>\<open>Id\<close> value for the keys at any depth of the tree under the key it is given (that key
  included) that have a value named \<^verbatim>\<open>Id\<close>; the order is depth-first, the pair of a key
  before the pairs of the keys below it. Run over the immediate sub keys of \<^verbatim>\<open>Tree\<close>, as
  \<^verbatim>\<open>GetEntries\<close> does, it yields the pairs of all the keys properly below \<^verbatim>\<open>Tree\<close>. The
  traversal is a function of the key alone: it changes nothing.
\<close>

theorem C9_GetIdValue:
  "set (GetIdValue key) =
     {(k, v). (key, k) \<in> subkey_rel\<^sup>* \<and> GetValue k ''Id'' = Some v}
   \<and> GetIdValue key = List.map_filter Id_pair (preorder key)
   \<and> GetIdValue key =
       (case GetValue key ''Id'' of None \<Rightarrow> [] | Some id_value \<Rightarrow> [(key, id_value)])
       @ concat (map GetIdValue (GetSubkeys key))
   \<and> set (id_pairs key) =
       {(k, v). (key, k) \<in> subkey_rel\<^sup>+ \<and> GetValue k ''Id'' = Some v}"
proof (intro conjI)
  show all: "\<And>key. set (GetIdValue key) =
     {(k, v). (key, k) \<in> subkey_rel\<^sup>* \<and> GetValue k ''Id'' = Some v}"
    by (simp add: GetIdValue_preorder set_map_filter_Id_pair set_preorder)
  show "GetIdValue key = List.map_filter Id_pair (preorder key)"
    by (rule GetIdValue_preorder)
  show "GetIdValue key =
       (case GetValue key ''Id'' of None \<Rightarrow> [] | Some id_value \<Rightarrow> [(key, id_value)])
       @ concat (map GetIdValue (GetSubkeys key))"
    by (rule GetIdValue_unfold)
  have "set (id_pairs key) = (\<Union>s\<in>set (GetSubkeys key). set (GetIdValue s))"
    by (simp add: id_pairs_def)
  also have "\<dots> = {(k, v). (\<exists>s\<in>set (GetSubkeys key). (s, k) \<in> subkey_rel\<^sup>*)
                        \<and> GetValue k ''Id'' = Some v}"
    unfolding all by blast
  also have "\<dots> = {(k, v). (key, k) \<in> subkey_rel\<^sup>+ \<and> GetValue k ''Id'' = Some v}"
    by (simp only: subkey_trancl)
  finally show "set (id_pairs key) =
       {(k, v). (key, k) \<in> subkey_rel\<^sup>+ \<and> GetValue k ''Id'' = Some v}" .
qed

subsection \<open>The decoder behind the size test\<close>

text \<open>
  Claim C10. For every byte string that passes the size test, that is, of exactly 28
  bytes, decoding the record succeeds: the version is the little-endian number in the
  bytes 0 to 3, the last registered time the one in the bytes 4 to 11, the launch time
  the one in the bytes 12 to 19 (the bytes 20 to 27 are read and dropped). Since the
  size test stands before the only call of the decoder, \<^verbatim>\<open>GetEntries\<close> never raises the
  decoder's error, whatever the key.
\<close>

theorem C10_decode_never_fails:
  assumes "length b = DYNAMIC_INFO_STRUCT_SIZE"
  shows "(\<exists>r. DYNAMIC_INFO_STRUCT_parse b = Inr r
            \<and> unat (version r) = (\<Sum>i<4. of_char (b ! i) * 256 ^ i)
            \<and> unat (last_registered_time r) = (\<Sum>i<8. of_char (b ! (4 + i)) * 256 ^ i)
            \<and> unat (launch_time r) = (\<Sum>i<8. of_char (b ! (12 + i)) * 256 ^ i))
       \<and> (\<exists>evs ws. GetEntries key registry_type = Inr (evs, ws))"
proof -
  have len: "length b = 28"
    using assms by (simp add: DYNAMIC_INFO_STRUCT_SIZE_28)
  have v: "unat (of_nat (le_uint (take 4 b)) :: 32 word) = (\<Sum>i<4. of_char (b ! i) * 256 ^ i)"
  proof -
    have "le_uint (take 4 b) < 256 ^ length (take 4 b)"
      by (rule le_uint_bound)
    then have "le_uint (take 4 b) < 2 ^ 32"
      using len by simp
    then have "unat (of_nat (le_uint (take 4 b)) :: 32 word) = le_uint (take 4 b)"
      by (simp add: unat_of_nat)
    also have "\<dots> = (\<Sum>i<4. of_char (b ! (0 + i)) * 256 ^ i)"
      using le_uint_take_drop [of 0 4 b] len by simp
    finally show ?thesis by simp
  qed
  have t: "unat (of_nat (le_uint (take 8 (drop k b))) :: 64 word)
      = (\<Sum>i<8. of_char (b ! (k + i)) * 256 ^ i)" if "k + 8 \<le> 28" for k
  proof -
    have "le_uint (take 8 (drop k b)) < 256 ^ length (take 8 (drop k b))"
      by (rule le_uint_bound)
    then have "le_uint (take 8 (drop k b)) < 2 ^ 64"
      using len that by simp
    then have "unat (of_nat (le_uint (take 8 (drop k b))) :: 64 word)
        = le_uint (take 8 (drop k b))"
      by (simp add: unat_of_nat)
    also have "\<dots> = (\<Sum>i<8. of_char (b ! (k + i)) * 256 ^ i)"
      using le_uint_take_drop [of k 8 b] len that by simp
    finally show ?thesis .
  qed
  have "\<exists>r. DYNAMIC_INFO_STRUCT_parse b = Inr r
            \<and> unat (version r) = (\<Sum>i<4. of_char (b ! i) * 256 ^ i)
            \<and> unat (last_registered_time r) = (\<Sum>i<8. of_char (b ! (4 + i)) * 256 ^ i)
            \<and> unat (launch_time r) = (\<Sum>i<8. of_char (b ! (12 + i)) * 256 ^ i)"
    using parse_28 [OF len] v t [of 4] t [of 12] by simp
  then show ?thesis
    using GetEntries_total by blast
qed

text \<open>The record of the example: version 3, last registered time 100, launch time 0.\<close>

theorem C10_decode_never_fails_witness:
  "length example_dynamic_info = DYNAMIC_INFO_STRUCT_SIZE
   \<and> (\<exists>r. DYNAMIC_INFO_STRUCT_parse example_dynamic_info = Inr r
        \<and> unat (version r) = 3
        \<and> unat (last_registered_time r) = 100
        \<and> unat (launch_time r) = 0)
   \<and> (\<exists>evs ws. GetEntries example_task_cache (Some ''SOFTWARE'') = Inr (evs, ws))"
proof -
  have h: "length example_dynamic_info = DYNAMIC_INFO_STRUCT_SIZE"
    by code_simp
  have s1: "(\<Sum>i<4. of_char (example_dynamic_info ! i) * 256 ^ i) = (3::nat)"
    by (simp add: example_dynamic_info_def sum_lessThan_4)
  have s2: "(\<Sum>i<8. of_char (example_dynamic_info ! (4 + i)) * 256 ^ i) = (100::nat)"
    by (simp add: example_dynamic_info_def sum_lessThan_8)
  have s3: "(\<Sum>i<8. of_char (example_dynamic_info ! (12 + i)) * 256 ^ i) = (0::nat)"
    by (simp add: example_dynamic_info_def sum_lessThan_8)
  from C10_decode_never_fails [OF h, of example_task_cache "Some ''SOFTWARE''"]
  show ?thesis
    unfolding s1 s2 s3 using h by blast
qed

end
